theory Spec2Isabelle
  imports Main
begin

section \<open>Network Firewall rule group: the data the operations exchange\<close>

text \<open>
  The resource \<open>aws_networkfirewall_rule_group\<close>: its create, read, update and delete
  operations, the Finder \<open>FindRuleGroupByARN\<close>, the status function \<open>statusRuleGroup\<close> and
  the waiter \<open>waitRuleGroupDeleted\<close>.

  Go pointers are options (\<open>None\<close> is \<open>nil\<close>). A Go function returning \<open>(value, error)\<close>
  returns a pair here, so that a reply carrying neither, or both, stays expressible.
  Request and response fields that no operation below branches on (tags, the encryption
  configuration) are left out of the records.
\<close>

subsection \<open>Errors\<close>

text \<open>
  What the remote client hands back as \<open>error\<close>: a service error with a code and a
  message (\<open>awserr.Error\<close>), or any other failure of the request (network, cancelled
  context).
\<close>

datatype sdk_error =
    AWSError string string
  | RequestError string

text \<open>
  The errors the provider code itself constructs or passes on. \<open>SDKError\<close> is the remote
  client's error returned as it came; \<open>NotFoundError\<close> is \<open>retry.NotFoundError\<close> with its
  \<open>LastError\<close>; \<open>EmptyResultError\<close> is the value of \<open>tfresource.NewEmptyResultError\<close>.
  The next three are the errors a wait ends with: a status it does not expect, the
  cancelled context, the timeout. \<open>SchemaError\<close> is the error of \<open>d.Set\<close>. \<open>NilPointerDereference\<close> is the Go run-time panic of a function
  that returns through an error value, kept so that the path exists in the model.
\<close>

datatype error =
    SDKError sdk_error
  | NotFoundError "sdk_error option"
  | EmptyResultError
  | UnexpectedStateError string
  | Cancelled
  | TimeoutError
  | SchemaError string
  | NilPointerDereference

text \<open>
  Modelled from the spec: the constants of the vendored AWS SDK package
  \<open>networkfirewall\<close> are not under src/. The Remote Client of spec 6 distinguishes a
  not-found failure from the others by its error code; the status enumeration of spec 2
  has a deleting state. The strings are those of the service API.
\<close>

definition ErrCodeResourceNotFoundException :: string where
  "ErrCodeResourceNotFoundException = ''ResourceNotFoundException''"

definition ErrCodeInvalidOperationException :: string where
  "ErrCodeInvalidOperationException = ''InvalidOperationException''"

definition ResourceStatusDeleting :: string where
  "ResourceStatusDeleting = ''DELETING''"

text \<open>
  Modelled from the spec: \<open>tfawserr.ErrCodeEquals\<close> and \<open>tfawserr.ErrMessageContains\<close>
  (vendored aws-sdk-go-base) are not under src/. They are the test by which a caller
  recognises the Remote Client's classified failure (spec 4.1, 6): the error is a service
  error with that code, and for the second its message contains the given text. A nil
  error matches nothing.
\<close>

fun ErrCodeEquals :: "sdk_error option \<Rightarrow> string \<Rightarrow> bool" where
  "ErrCodeEquals (Some (AWSError c m)) code = (c = code)"
| "ErrCodeEquals _ code = False"

fun contains :: "string \<Rightarrow> string \<Rightarrow> bool" where
  "contains [] sub = (sub = [])"
| "contains (c # cs) sub = (take (length sub) (c # cs) = sub \<or> contains cs sub)"

fun ErrMessageContains :: "sdk_error option \<Rightarrow> string \<Rightarrow> string \<Rightarrow> bool" where
  "ErrMessageContains (Some (AWSError c m)) code message = (c = code \<and> contains m message)"
| "ErrMessageContains _ code message = False"

text \<open>
  Modelled from the spec: \<open>tfresource.NotFound\<close> (internal/tfresource) is not under src/.
  It recognises the typed not-found value of spec 4.1. The empty-result error, which
  \<open>resourceRuleGroupRead\<close> builds right before this test, counts as not found as well.
\<close>

fun NotFound :: "error option \<Rightarrow> bool" where
  "NotFound (Some (NotFoundError e)) = True"
| "NotFound (Some EmptyResultError) = True"
| "NotFound _ = False"

text \<open>
  Modelled from the spec: \<open>aws.StringValue\<close> (vendored AWS SDK) is not under src/. The
  remote state of spec 4.2 carries its status as an optional string: the string behind the
  pointer, empty for nil.
\<close>

fun StringValue :: "string option \<Rightarrow> string" where
  "StringValue None = []"
| "StringValue (Some s) = s"

subsection \<open>Requests, replies and the remote client\<close>

text \<open>
  The nested \<open>rule_group\<close> block (\<open>map[string]interface{}\<close>) and the SDK structure built
  from it are kept opaque: only whether they are nil matters to the operations.
  \<open>expandRuleGroup\<close> returns nil exactly for a nil map, \<open>flattenRuleGroup\<close> the empty
  list exactly for a nil structure.
\<close>

type_synonym tfMap = string

datatype RuleGroup = RuleGroup tfMap

fun expandRuleGroup :: "tfMap option \<Rightarrow> RuleGroup option" where
  "expandRuleGroup None = None"
| "expandRuleGroup (Some m) = Some (RuleGroup m)"

fun flattenRuleGroup :: "RuleGroup option \<Rightarrow> tfMap option list" where
  "flattenRuleGroup None = []"
| "flattenRuleGroup (Some (RuleGroup m)) = [Some m]"

record RuleGroupResponse =
  RuleGroupArn :: "string option"
  Capacity :: "int option"
  Description :: "string option"
  RuleGroupName :: "string option"
  RuleGroupStatus :: "string option"
  Type :: "string option"

record CreateRuleGroupInput =
  cri_Capacity :: "int option"
  cri_RuleGroupName :: "string option"
  cri_Type :: "string option"
  cri_Description :: "string option"
  cri_RuleGroup :: "RuleGroup option"
  cri_Rules :: "string option"

record CreateRuleGroupOutput =
  cro_RuleGroupResponse :: "RuleGroupResponse option"

record DescribeRuleGroupInput =
  dri_RuleGroupArn :: "string option"

record DescribeRuleGroupOutput =
  dro_RuleGroup :: "RuleGroup option"
  dro_RuleGroupResponse :: "RuleGroupResponse option"
  dro_UpdateToken :: "string option"

record UpdateRuleGroupInput =
  uri_RuleGroupArn :: "string option"
  uri_Type :: "string option"
  uri_UpdateToken :: "string option"
  uri_Description :: "string option"
  uri_RuleGroup :: "RuleGroup option"
  uri_Rules :: "string option"

record DeleteRuleGroupInput =
  dli_RuleGroupArn :: "string option"

text \<open>
  The remote side. Every call is appended to a log, and the remote's reply is a function
  of the calls made so far and of the request: a remote whose resource changes state
  between two describe calls is such a function. The log is the state every operation
  threads through.
\<close>

datatype call =
    CallCreate CreateRuleGroupInput
  | CallDescribe DescribeRuleGroupInput
  | CallUpdate UpdateRuleGroupInput
  | CallDelete DeleteRuleGroupInput

record NetworkFirewall =
  CreateRuleGroupReply ::
    "call list \<Rightarrow> CreateRuleGroupInput \<Rightarrow> CreateRuleGroupOutput option \<times> sdk_error option"
  DescribeRuleGroupReply ::
    "call list \<Rightarrow> DescribeRuleGroupInput \<Rightarrow> DescribeRuleGroupOutput option \<times> sdk_error option"
  UpdateRuleGroupReply ::
    "call list \<Rightarrow> UpdateRuleGroupInput \<Rightarrow> sdk_error option"
  DeleteRuleGroupReply ::
    "call list \<Rightarrow> DeleteRuleGroupInput \<Rightarrow> sdk_error option"

definition CreateRuleGroupWithContext ::
  "NetworkFirewall \<Rightarrow> CreateRuleGroupInput \<Rightarrow> call list
     \<Rightarrow> (CreateRuleGroupOutput option \<times> sdk_error option) \<times> call list" where
  "CreateRuleGroupWithContext conn input log =
     (CreateRuleGroupReply conn log input, log @ [CallCreate input])"

definition DescribeRuleGroupWithContext ::
  "NetworkFirewall \<Rightarrow> DescribeRuleGroupInput \<Rightarrow> call list
     \<Rightarrow> (DescribeRuleGroupOutput option \<times> sdk_error option) \<times> call list" where
  "DescribeRuleGroupWithContext conn input log =
     (DescribeRuleGroupReply conn log input, log @ [CallDescribe input])"

definition UpdateRuleGroupWithContext ::
  "NetworkFirewall \<Rightarrow> UpdateRuleGroupInput \<Rightarrow> call list \<Rightarrow> sdk_error option \<times> call list" where
  "UpdateRuleGroupWithContext conn input log =
     (UpdateRuleGroupReply conn log input, log @ [CallUpdate input])"

definition DeleteRuleGroupWithContext ::
  "NetworkFirewall \<Rightarrow> DeleteRuleGroupInput \<Rightarrow> call list \<Rightarrow> sdk_error option \<times> call list" where
  "DeleteRuleGroupWithContext conn input log =
     (DeleteRuleGroupReply conn log input, log @ [CallDelete input])"

section \<open>The Finder\<close>

text \<open>
  \<open>FindRuleGroupByARN\<close>: one describe call. A not-found service error becomes
  \<open>NotFoundError\<close> carrying it; any other error is returned as it is; a reply without
  output or without \<open>RuleGroupResponse\<close> becomes \<open>EmptyResultError\<close>.
\<close>

definition FindRuleGroupByARN ::
  "NetworkFirewall \<Rightarrow> string \<Rightarrow> call list
     \<Rightarrow> (DescribeRuleGroupOutput option \<times> error option) \<times> call list" where
  "FindRuleGroupByARN conn arn log =
     (let input = \<lparr>dri_RuleGroupArn = Some arn\<rparr>;
          ((output, err), log') = DescribeRuleGroupWithContext conn input log
      in if ErrCodeEquals err ErrCodeResourceNotFoundException then
           ((None, Some (NotFoundError err)), log')
         else case err of
           Some e \<Rightarrow> ((None, Some (SDKError e)), log')
         | None \<Rightarrow>
             (case output of
                None \<Rightarrow> ((None, Some EmptyResultError), log')
              | Some out \<Rightarrow>
                  if dro_RuleGroupResponse out = None then
                    ((None, Some EmptyResultError), log')
                  else ((Some out, None), log')))"

section \<open>Status function, Poller and waiter\<close>

text \<open>
  \<open>retry.StateRefreshFunc\<close> returns \<open>(interface{}, string, error)\<close>. The first
  component is \<open>None\<close> for the nil interface and \<open>Some p\<close> for an interface holding the
  pointer \<open>p\<close>, which may itself be nil.
\<close>

type_synonym refresh_result = "RuleGroup option option \<times> string \<times> error option"

definition statusRuleGroup ::
  "NetworkFirewall \<Rightarrow> string \<Rightarrow> call list \<Rightarrow> refresh_result \<times> call list" where
  "statusRuleGroup conn arn log =
     (let ((output, err), log') = FindRuleGroupByARN conn arn log
      in if NotFound err then ((None, [], None), log')
         else case err of
           Some e \<Rightarrow> ((None, [], Some e), log')
         | None \<Rightarrow>
             (case output of
                None \<Rightarrow> ((None, [], Some NilPointerDereference), log')
              | Some out \<Rightarrow>
                  (case dro_RuleGroupResponse out of
                     None \<Rightarrow> ((None, [], Some NilPointerDereference), log')
                   | Some response \<Rightarrow>
                       ((Some (dro_RuleGroup out), StringValue (RuleGroupStatus response), None),
                        log'))))"

record StateChangeConf =
  Pending :: "string list"
  Target :: "string list"
  Refresh :: "call list \<Rightarrow> refresh_result \<times> call list"
  Timeout :: nat

text \<open>
  Durations are natural numbers of nanoseconds, as \<open>time.Duration\<close> counts them. The
  context carries the cancellation signal: \<open>Done ctx t\<close> holds when the context is
  cancelled at time \<open>t\<close> of the running wait.
\<close>

definition Millisecond :: nat where
  "Millisecond = 1000000"

definition Second :: nat where
  "Second = 1000000000"

definition Minute :: nat where
  "Minute = 60000000000"

record Context =
  Done :: "nat \<Rightarrow> bool"

text \<open>
  The outcome of a wait (spec 3). A failure keeps the value that the last \<open>Refresh\<close>
  returned beside its error, as the Go function returns the pair.
\<close>

datatype PollOutcome =
    Converged "RuleGroup option option"
  | Failed "RuleGroup option option" error
  | TimedOut

text \<open>
  Modelled from the spec: \<open>retry.StateChangeConf.WaitForStateContext\<close> (vendored
  terraform-plugin-sdk, helper/retry) is not under src/. \<open>pollLoop\<close> is the Poller of
  spec 4.3: ticks that call \<open>Refresh\<close> until the wait converges, fails or times out, on
  a clock \<open>now\<close> that starts at 0 and advances only by the sleeps between ticks. The
  record the source builds has a \<open>Pending\<close> and a \<open>Target\<close> list and neither failure
  statuses nor an interval, so each tick gives the record's fields the meaning that the
  library gives them, also where spec 4.3 words it otherwise:
  \<^item> an error of \<open>Refresh\<close> ends the wait with that error, whatever its cause;
  \<^item> a result without value and without error (the Finder's NotFound as
    \<open>statusRuleGroup\<close> passes it on) converges when \<open>Target\<close> is empty, the wait for
    absence; with a non-empty \<open>Target\<close> it is counted, and more than \<open>NotFoundChecks\<close>
    such ticks in a row fail the wait;
  \<^item> a status in \<open>Target\<close> converges; a status in \<open>Pending\<close> sleeps and continues; any
    other status fails the wait with \<open>UnexpectedStateError\<close> when \<open>Pending\<close> is not
    empty, and continues when it is;
  \<^item> the sleeps follow the library's back-off, the source setting no interval: none
    before the first tick, then 200 ms, doubled each time, at most 10 s (\<open>nextWait\<close>).
  The timeout and the cancellation are observed when a tick begins; the library's timer
  fires during the sleep before it, so the wait it models returns no later than \<open>pollLoop\<close>
  does. The fields the source leaves unset have the library's defaults: 20 not-found
  checks, one occurrence of the target, no delay. The result carries the clock at return
  and the call log; \<open>None\<close> would be a loop that never returns.
\<close>

definition NotFoundChecks :: nat where
  "NotFoundChecks = 20"

definition nextWait :: "nat \<Rightarrow> nat" where
  "nextWait wait =
     (let w = 2 * (if wait = 0 then 100 * Millisecond else wait)
      in if w > 10 * Second then 10 * Second else w)"

partial_function (option) pollLoop ::
  "Context \<Rightarrow> StateChangeConf \<Rightarrow> nat \<Rightarrow> nat \<Rightarrow> nat \<Rightarrow> call list
     \<Rightarrow> (PollOutcome \<times> nat \<times> call list) option" where
  "pollLoop ctx conf now wait notfoundTick log =
     (if Timeout conf \<le> now then Some (TimedOut, now, log)
      else if Done ctx now then Some (Failed None Cancelled, now, log)
      else case Refresh conf log of
        ((res, status, err), log') \<Rightarrow>
          (case err of
             Some e \<Rightarrow> Some (Failed res e, now, log')
           | None \<Rightarrow>
               (case res of
                  None \<Rightarrow>
                    if Target conf = [] then Some (Converged None, now, log')
                    else if NotFoundChecks < Suc notfoundTick then
                      Some (Failed None (NotFoundError None), now, log')
                    else pollLoop ctx conf (now + nextWait wait) (nextWait wait)
                           (Suc notfoundTick) log'
                | Some r \<Rightarrow>
                    if status \<in> set (Target conf) then
                      Some (Converged (Some r), now, log')
                    else if status \<in> set (Pending conf) \<or> Pending conf = [] then
                      pollLoop ctx conf (now + nextWait wait) (nextWait wait) 0 log'
                    else Some (Failed (Some r) (UnexpectedStateError status), now, log'))))"

declare pollLoop.simps [code]

text \<open>
  \<open>WaitForStateContext\<close> returns \<open>(interface{}, error)\<close>: the final state on convergence,
  the last value with the failure's error, or the timeout error.
\<close>

definition WaitForStateContext ::
  "Context \<Rightarrow> StateChangeConf \<Rightarrow> call list
     \<Rightarrow> ((RuleGroup option option \<times> error option) \<times> call list) option" where
  "WaitForStateContext ctx conf log =
     (case pollLoop ctx conf 0 0 0 log of
        None \<Rightarrow> None
      | Some (Converged r, t, log') \<Rightarrow> Some ((r, None), log')
      | Some (Failed r e, t, log') \<Rightarrow> Some ((r, Some e), log')
      | Some (TimedOut, t, log') \<Rightarrow> Some ((None, Some TimeoutError), log'))"

text \<open>
  \<open>waitRuleGroupDeleted\<close>: the configuration is built here as in the source; the type
  assertion \<open>outputRaw.(*networkfirewall.RuleGroup)\<close> succeeds on any non-nil interface,
  since \<open>statusRuleGroup\<close> only ever puts that pointer type into it.
\<close>

definition ruleGroupDeletedConf :: "NetworkFirewall \<Rightarrow> string \<Rightarrow> nat \<Rightarrow> StateChangeConf" where
  "ruleGroupDeletedConf conn arn timeout =
     \<lparr>Pending = [ResourceStatusDeleting],
      Target = [],
      Refresh = statusRuleGroup conn arn,
      Timeout = timeout\<rparr>"

definition waitRuleGroupDeleted ::
  "Context \<Rightarrow> NetworkFirewall \<Rightarrow> string \<Rightarrow> nat \<Rightarrow> call list
     \<Rightarrow> ((RuleGroup option \<times> error option) \<times> call list) option" where
  "waitRuleGroupDeleted ctx conn arn timeout log =
     (let stateConf = ruleGroupDeletedConf conn arn timeout
      in case WaitForStateContext ctx stateConf log of
           None \<Rightarrow> None
         | Some ((outputRaw, err), log') \<Rightarrow>
             (case outputRaw of
                Some output \<Rightarrow> Some ((output, err), log')
              | None \<Rightarrow> Some ((None, err), log')))"

section \<open>The lifecycle operations\<close>

text \<open>
  Modelled from the spec: \<open>schema.ResourceData\<close> belongs to the framework (vendored
  terraform-plugin-sdk) and is not under src/. It is the configuration layer of spec 6,
  which supplies the desired state as an attribute map. The record holds what the
  operations ask of it: the identifier, the new-resource mark, the attribute values
  (\<open>d.Get\<close> reads them, \<open>d.Set\<close> writes them), the keys whose planned value differs
  from the prior state (\<open>d.HasChange\<close>), and for each key the error \<open>d.Set\<close> answers
  with, if any. \<open>d.GetOk\<close> reports a value as set when it is not the zero value of its
  type: a non-empty string, a non-empty list.
\<close>

record ResourceData =
  d_Id :: string
  d_IsNewResource :: bool
  d_changed :: "string list"
  d_setError :: "string \<Rightarrow> string option"
  d_arn :: string
  d_capacity :: int
  d_description :: string
  d_name :: string
  d_rule_group :: "tfMap option list"
  d_rules :: string
  d_type :: string
  d_update_token :: string

definition HasChange :: "ResourceData \<Rightarrow> string \<Rightarrow> bool" where
  "HasChange d key = (key \<in> set (d_changed d))"

definition HasChanges :: "ResourceData \<Rightarrow> string list \<Rightarrow> bool" where
  "HasChanges d keys = (\<exists>key \<in> set keys. HasChange d key)"

definition GetOk_string :: "string \<Rightarrow> string \<times> bool" where
  "GetOk_string v = (v, v \<noteq> [])"

definition GetOk_list :: "'a list \<Rightarrow> 'a list \<times> bool" where
  "GetOk_list v = (v, v \<noteq> [])"

definition Set_field ::
  "ResourceData \<Rightarrow> string \<Rightarrow> (ResourceData \<Rightarrow> ResourceData) \<Rightarrow> ResourceData \<times> string option" where
  "Set_field d key write =
     (case d_setError d key of None \<Rightarrow> (write d, None) | Some m \<Rightarrow> (d, Some m))"

text \<open>
  \<open>diag.Errorf\<close> with its format's summary, the identifier or name printed into it and
  the error. An operation returns its diagnostics (\<open>Returned []\<close> is the nil of success)
  or panics on a nil pointer.
\<close>

datatype diagnostic = Errorf string string error

datatype outcome = Returned "diagnostic list" | Panicked

record AWSClient =
  NetworkFirewallConn :: NetworkFirewall

text \<open>
  The rule group of the configuration as the create and update operations read it:
  \<open>v, ok := d.GetOk("rule_group"); ok && len(v) > 0 && v[0] != nil\<close>, then
  \<open>expandRuleGroup\<close> of the first element.
\<close>

definition configuredRuleGroup :: "ResourceData \<Rightarrow> RuleGroup option" where
  "configuredRuleGroup d =
     (let (v, ok) = GetOk_list (d_rule_group d)
      in if ok \<and> length v > 0 \<and> hd v \<noteq> None then expandRuleGroup (hd v) else None)"

text \<open>
  \<open>resourceRuleGroupRead\<close>, in three parts that follow the source's order: the Finder
  call with the empty-result test on \<open>output.RuleGroup\<close> (which dereferences
  \<open>output\<close> when the Finder gave no error); the not-found and error exits; the
  sequence of \<open>d.Set\<close> calls, of which only the one for \<open>rule_group\<close> has its error
  checked.
\<close>

definition setAttributes ::
  "ResourceData \<Rightarrow> DescribeRuleGroupOutput \<Rightarrow> RuleGroupResponse \<Rightarrow> outcome \<times> ResourceData" where
  "setAttributes d out response =
     (let d1 = fst (Set_field d ''arn''
                 (\<lambda>x. x\<lparr>d_arn := StringValue (RuleGroupArn response)\<rparr>));
          d2 = fst (Set_field d1 ''capacity''
                 (\<lambda>x. x\<lparr>d_capacity := (case Capacity response of None \<Rightarrow> 0 | Some c \<Rightarrow> c)\<rparr>));
          d3 = fst (Set_field d2 ''description''
                 (\<lambda>x. x\<lparr>d_description := StringValue (Description response)\<rparr>));
          d4 = fst (Set_field d3 ''name''
                 (\<lambda>x. x\<lparr>d_name := StringValue (RuleGroupName response)\<rparr>));
          (d5, serr) = Set_field d4 ''rule_group''
                 (\<lambda>x. x\<lparr>d_rule_group := flattenRuleGroup (dro_RuleGroup out)\<rparr>)
      in (case serr of
            Some m \<Rightarrow> (Returned [Errorf ''setting rule_group'' [] (SchemaError m)], d5)
          | None \<Rightarrow>
              (let d6 = fst (Set_field d5 ''type''
                          (\<lambda>x. x\<lparr>d_type := StringValue (Type response)\<rparr>));
                   d7 = fst (Set_field d6 ''update_token''
                          (\<lambda>x. x\<lparr>d_update_token := StringValue (dro_UpdateToken out)\<rparr>))
               in (Returned [], d7))))"

definition readResult ::
  "ResourceData \<Rightarrow> DescribeRuleGroupOutput option \<Rightarrow> error option \<Rightarrow> outcome \<times> ResourceData" where
  "readResult d output err =
     (if \<not> d_IsNewResource d \<and> NotFound err then (Returned [], d\<lparr>d_Id := []\<rparr>)
      else (case err of
              Some e \<Rightarrow> (Returned [Errorf ''reading NetworkFirewall Rule Group'' (d_Id d) e], d)
            | None \<Rightarrow>
                (case output of
                   None \<Rightarrow> (Panicked, d)
                 | Some out \<Rightarrow>
                     (case dro_RuleGroupResponse out of
                        None \<Rightarrow> (Panicked, d)
                      | Some response \<Rightarrow> setAttributes d out response))))"

definition resourceRuleGroupRead ::
  "Context \<Rightarrow> ResourceData \<Rightarrow> AWSClient \<Rightarrow> call list \<Rightarrow> outcome \<times> ResourceData \<times> call list" where
  "resourceRuleGroupRead ctx d meta log =
     (let conn = NetworkFirewallConn meta;
          ((output, err), log') = FindRuleGroupByARN conn (d_Id d) log
      in (case err of
            Some e \<Rightarrow> (let (r, d') = readResult d output err in (r, d', log'))
          | None \<Rightarrow>
              (case output of
                 None \<Rightarrow> (Panicked, d, log')
               | Some out \<Rightarrow>
                   (let err' = (if dro_RuleGroup out = None then Some EmptyResultError else None);
                        (r, d') = readResult d output err'
                    in (r, d', log')))))"

definition createInput :: "ResourceData \<Rightarrow> CreateRuleGroupInput" where
  "createInput d =
     \<lparr>cri_Capacity = Some (d_capacity d),
      cri_RuleGroupName = Some (d_name d),
      cri_Type = Some (d_type d),
      cri_Description =
        (let (v, ok) = GetOk_string (d_description d) in if ok then Some v else None),
      cri_RuleGroup = configuredRuleGroup d,
      cri_Rules =
        (let (v, ok) = GetOk_string (d_rules d) in if ok then Some v else None)\<rparr>"

definition resourceRuleGroupCreate ::
  "Context \<Rightarrow> ResourceData \<Rightarrow> AWSClient \<Rightarrow> call list \<Rightarrow> outcome \<times> ResourceData \<times> call list" where
  "resourceRuleGroupCreate ctx d meta log =
     (let conn = NetworkFirewallConn meta;
          name = d_name d;
          input = createInput d;
          ((output, err), log') = CreateRuleGroupWithContext conn input log
      in case err of
           Some e \<Rightarrow>
             (Returned [Errorf ''creating NetworkFirewall Rule Group'' name (SDKError e)], d, log')
         | None \<Rightarrow>
             (case output of
                None \<Rightarrow> (Panicked, d, log')
              | Some out \<Rightarrow>
                  (case cro_RuleGroupResponse out of
                     None \<Rightarrow> (Panicked, d, log')
                   | Some response \<Rightarrow>
                       resourceRuleGroupRead ctx
                         (d\<lparr>d_Id := StringValue (RuleGroupArn response)\<rparr>) meta log')))"

text \<open>
  The request of the update operation. \<open>Rules\<close> is set when \<open>rules\<close> has changed;
  otherwise \<open>RuleGroup\<close> when \<open>rule_group\<close> has changed and is configured; when neither
  was set, \<open>Rules\<close> if \<open>rules\<close> is set in the configuration, else \<open>RuleGroup\<close> if
  \<open>rule_group\<close> is.
\<close>

definition updateInput :: "ResourceData \<Rightarrow> UpdateRuleGroupInput" where
  "updateInput d =
     (let input0 = \<lparr>uri_RuleGroupArn = Some (d_Id d),
                    uri_Type = Some (d_type d),
                    uri_UpdateToken = Some (d_update_token d),
                    uri_Description =
                      (let (v, ok) = GetOk_string (d_description d)
                       in if ok then Some v else None),
                    uri_RuleGroup = None,
                    uri_Rules = None\<rparr>;
          input1 =
            (if HasChange d ''rules'' then input0\<lparr>uri_Rules := Some (d_rules d)\<rparr>
             else if HasChange d ''rule_group'' then
               (case configuredRuleGroup d of
                  None \<Rightarrow> input0
                | Some rg \<Rightarrow> input0\<lparr>uri_RuleGroup := Some rg\<rparr>)
             else input0)
      in if uri_Rules input1 = None \<and> uri_RuleGroup input1 = None then
           (let (v, ok) = GetOk_string (d_rules d)
            in if ok then input1\<lparr>uri_Rules := Some v\<rparr>
               else case configuredRuleGroup d of
                      None \<Rightarrow> input1
                    | Some rg \<Rightarrow> input1\<lparr>uri_RuleGroup := Some rg\<rparr>)
         else input1)"

definition resourceRuleGroupUpdate ::
  "Context \<Rightarrow> ResourceData \<Rightarrow> AWSClient \<Rightarrow> call list \<Rightarrow> outcome \<times> ResourceData \<times> call list" where
  "resourceRuleGroupUpdate ctx d meta log =
     (let conn = NetworkFirewallConn meta
      in if HasChanges d [''description'', ''encryption_configuration'', ''rule_group'',
                          ''rules'', ''type''] then
           (let input = updateInput d;
                (err, log') = UpdateRuleGroupWithContext conn input log
            in case err of
                 Some e \<Rightarrow>
                   (Returned [Errorf ''updating NetworkFirewall Rule Group'' (d_Id d) (SDKError e)],
                    d, log')
               | None \<Rightarrow> resourceRuleGroupRead ctx d meta log')
         else resourceRuleGroupRead ctx d meta log)"

text \<open>
  Modelled from the spec: \<open>tfresource.RetryWhenAWSErrMessageContains\<close>
  (internal/tfresource) is not under src/. Spec 4.4 retries the initiating call on a
  transient cause with bounded attempts: the call is made, and made again while its error
  is the service error with the given code and message text and attempts remain; the last
  reply is returned. The bound on attempts, which the source's call does not carry, is
  the parameter \<open>attempts\<close>: the number of further attempts that the time limit leaves
  room for.
\<close>

fun retryLoop ::
  "nat \<Rightarrow> (call list \<Rightarrow> sdk_error option \<times> call list) \<Rightarrow> string \<Rightarrow> string \<Rightarrow> call list
     \<Rightarrow> sdk_error option \<times> call list" where
  "retryLoop 0 f code message log = f log"
| "retryLoop (Suc n) f code message log =
     (let (err, log') = f log
      in if ErrMessageContains err code message then retryLoop n f code message log'
         else (err, log'))"

definition RetryWhenAWSErrMessageContains ::
  "nat \<Rightarrow> Context \<Rightarrow> nat \<Rightarrow> (call list \<Rightarrow> sdk_error option \<times> call list) \<Rightarrow> string \<Rightarrow> string
     \<Rightarrow> call list \<Rightarrow> sdk_error option \<times> call list" where
  "RetryWhenAWSErrMessageContains attempts ctx timeout f code message log =
     retryLoop attempts f code message log"

definition resourceRuleGroupDelete ::
  "nat \<Rightarrow> Context \<Rightarrow> ResourceData \<Rightarrow> AWSClient \<Rightarrow> call list
     \<Rightarrow> (outcome \<times> ResourceData \<times> call list) option" where
  "resourceRuleGroupDelete attempts ctx d meta log =
     (let timeout = 10 * Minute;
          conn = NetworkFirewallConn meta;
          (err, log') =
            RetryWhenAWSErrMessageContains attempts ctx timeout
              (DeleteRuleGroupWithContext conn \<lparr>dli_RuleGroupArn = Some (d_Id d)\<rparr>)
              ErrCodeInvalidOperationException
              ''Unable to delete the object because it is still in use'' log
      in if ErrCodeEquals err ErrCodeResourceNotFoundException then Some (Returned [], d, log')
         else case err of
           Some e \<Rightarrow>
             Some (Returned [Errorf ''deleting NetworkFirewall Rule Group'' (d_Id d) (SDKError e)],
                   d, log')
         | None \<Rightarrow>
             (case waitRuleGroupDeleted ctx conn (d_Id d) timeout log' of
                None \<Rightarrow> None
              | Some ((output, werr), log'') \<Rightarrow>
                  (case werr of
                     Some NilPointerDereference \<Rightarrow> Some (Panicked, d, log'')
                   | Some e \<Rightarrow>
                       Some (Returned [Errorf ''waiting for NetworkFirewall Rule Group delete''
                                         (d_Id d) e], d, log'')
                   | None \<Rightarrow> Some (Returned [], d, log''))))"

section \<open>Example remotes and configurations\<close>

definition ex_arn :: string where
  "ex_arn = ''arn:aws:network-firewall:rule-group/example''"

definition ex_response :: "string \<Rightarrow> RuleGroupResponse" where
  "ex_response status =
     \<lparr>RuleGroupArn = Some ex_arn, Capacity = Some 100, Description = None,
      RuleGroupName = Some ''example'', RuleGroupStatus = Some status,
      Type = Some ''STATEFUL''\<rparr>"

definition ex_described :: "string \<Rightarrow> DescribeRuleGroupOutput" where
  "ex_described status =
     \<lparr>dro_RuleGroup = Some (RuleGroup ''rules_source''),
      dro_RuleGroupResponse = Some (ex_response status),
      dro_UpdateToken = Some ''token-1''\<rparr>"

text \<open>A remote on which every call succeeds and every describe reports the given status.\<close>

definition conn_status :: "string \<Rightarrow> NetworkFirewall" where
  "conn_status status =
     \<lparr>CreateRuleGroupReply =
        (\<lambda>log input. (Some \<lparr>cro_RuleGroupResponse = Some (ex_response status)\<rparr>, None)),
      DescribeRuleGroupReply = (\<lambda>log input. (Some (ex_described status), None)),
      UpdateRuleGroupReply = (\<lambda>log input. None),
      DeleteRuleGroupReply = (\<lambda>log input. None)\<rparr>"

text \<open>A remote on which every call fails with the given error.\<close>

definition conn_failing :: "sdk_error \<Rightarrow> NetworkFirewall" where
  "conn_failing e =
     \<lparr>CreateRuleGroupReply = (\<lambda>log input. (None, Some e)),
      DescribeRuleGroupReply = (\<lambda>log input. (None, Some e)),
      UpdateRuleGroupReply = (\<lambda>log input. Some e),
      DeleteRuleGroupReply = (\<lambda>log input. Some e)\<rparr>"

definition err_not_found :: sdk_error where
  "err_not_found = AWSError ''ResourceNotFoundException'' ''rule group not found''"

definition err_throttled :: sdk_error where
  "err_throttled = AWSError ''ThrottlingException'' ''Rate exceeded''"

text \<open>The resource is gone (describe answers not found) and the delete call is throttled.\<close>

definition conn_gone_throttled :: NetworkFirewall where
  "conn_gone_throttled =
     (conn_failing err_not_found)\<lparr>DeleteRuleGroupReply := (\<lambda>log input. Some err_throttled)\<rparr>"

definition ex_d :: ResourceData where
  "ex_d = \<lparr>d_Id = ex_arn, d_IsNewResource = False, d_changed = [],
           d_setError = (\<lambda>key. None), d_arn = ex_arn, d_capacity = 100,
           d_description = [], d_name = ''example'', d_rule_group = [],
           d_rules = ''pass tcp any any -> any any (sid:1;)'', d_type = ''STATEFUL'',
           d_update_token = ''token-0''\<rparr>"

text \<open>
  Both \<open>rules\<close> and \<open>rule_group\<close> are configured, and only \<open>rule_group\<close> has changed.
\<close>

definition ex_d_both :: ResourceData where
  "ex_d_both = ex_d\<lparr>d_rule_group := [Some ''rules_source''], d_changed := [''rule_group'']\<rparr>"

definition ex_ctx :: Context where
  "ex_ctx = \<lparr>Done = (\<lambda>t. False)\<rparr>"

definition ex_meta :: "NetworkFirewall \<Rightarrow> AWSClient" where
  "ex_meta conn = \<lparr>NetworkFirewallConn = conn\<rparr>"

text \<open>A remote whose describe call gives the fixed reply, every other call succeeding.\<close>

definition conn_describing ::
  "DescribeRuleGroupOutput option \<times> sdk_error option \<Rightarrow> NetworkFirewall" where
  "conn_describing reply =
     (conn_status ''ACTIVE'')\<lparr>DescribeRuleGroupReply := (\<lambda>log input. reply)\<rparr>"

definition ex_empty_output :: DescribeRuleGroupOutput where
  "ex_empty_output =
     \<lparr>dro_RuleGroup = None, dro_RuleGroupResponse = None, dro_UpdateToken = None\<rparr>"

definition err_in_use :: sdk_error where
  "err_in_use = AWSError ''InvalidOperationException''
     ''Unable to delete the object because it is still in use by a firewall policy''"

text \<open>
  The resource is gone. The first delete call is answered with still in use, the later
  ones with not found.
\<close>

definition conn_in_use_then_gone :: NetworkFirewall where
  "conn_in_use_then_gone =
     (conn_failing err_not_found)\<lparr>DeleteRuleGroupReply :=
        (\<lambda>log input. if log = [] then Some err_in_use else Some err_not_found)\<rparr>"

lemmas ex_defs = ex_d_def ex_d_both_def ex_ctx_def ex_meta_def conn_status_def conn_failing_def
  ex_response_def ex_described_def err_not_found_def err_throttled_def err_in_use_def
  conn_gone_throttled_def conn_describing_def ex_empty_output_def conn_in_use_then_gone_def

lemmas op_defs = resourceRuleGroupCreate_def CreateRuleGroupWithContext_def Let_def
  resourceRuleGroupRead_def readResult_def setAttributes_def Set_field_def
  FindRuleGroupByARN_def DescribeRuleGroupWithContext_def statusRuleGroup_def
  ruleGroupDeletedConf_def createInput_def configuredRuleGroup_def GetOk_string_def
  GetOk_list_def resourceRuleGroupUpdate_def UpdateRuleGroupWithContext_def updateInput_def
  HasChange_def HasChanges_def resourceRuleGroupDelete_def DeleteRuleGroupWithContext_def
  RetryWhenAWSErrMessageContains_def ErrCodeResourceNotFoundException_def
  ErrCodeInvalidOperationException_def ResourceStatusDeleting_def

lemmas wait_defs = pollLoop.simps waitRuleGroupDeleted_def WaitForStateContext_def
  nextWait_def NotFoundChecks_def Millisecond_def Second_def Minute_def

section \<open>Properties of the Finder\<close>

lemma Find_log:
  "snd (FindRuleGroupByARN conn arn log) = log @ [CallDescribe \<lparr>dri_RuleGroupArn = Some arn\<rparr>]"
  by (simp add: FindRuleGroupByARN_def DescribeRuleGroupWithContext_def Let_def
           split: option.splits prod.splits)

lemma Find_cases:
  "(\<exists>e. fst (FindRuleGroupByARN conn arn log) = (None, Some e)) \<or>
   (\<exists>out response. fst (FindRuleGroupByARN conn arn log) = (Some out, None) \<and>
                    dro_RuleGroupResponse out = Some response)"
  by (auto simp: FindRuleGroupByARN_def DescribeRuleGroupWithContext_def Let_def
           split: option.splits prod.splits)

text \<open>
  C5. When the describe call of the Finder fails, the Finder makes that one call and
  returns no output; a failure with the code \<open>ResourceNotFoundException\<close> comes back as
  the typed \<open>NotFoundError\<close> carrying it, which \<open>NotFound\<close> recognises, and every other
  failure comes back as the same error, which \<open>NotFound\<close> rejects.
\<close>

theorem FindRuleGroupByARN_maps_errors:
  assumes "DescribeRuleGroupReply conn log \<lparr>dri_RuleGroupArn = Some arn\<rparr> = (output, Some e)"
  shows "(ErrCodeEquals (Some e) ErrCodeResourceNotFoundException \<longrightarrow>
            fst (FindRuleGroupByARN conn arn log) = (None, Some (NotFoundError (Some e))) \<and>
            NotFound (snd (fst (FindRuleGroupByARN conn arn log))))
       \<and> (\<not> ErrCodeEquals (Some e) ErrCodeResourceNotFoundException \<longrightarrow>
            fst (FindRuleGroupByARN conn arn log) = (None, Some (SDKError e)) \<and>
            \<not> NotFound (snd (fst (FindRuleGroupByARN conn arn log))))
       \<and> snd (FindRuleGroupByARN conn arn log) =
            log @ [CallDescribe \<lparr>dri_RuleGroupArn = Some arn\<rparr>]"
  using assms
  by (simp add: FindRuleGroupByARN_def DescribeRuleGroupWithContext_def Let_def)

theorem FindRuleGroupByARN_maps_errors_witness:
  "DescribeRuleGroupReply (conn_failing err_not_found) [] \<lparr>dri_RuleGroupArn = Some ex_arn\<rparr>
     = (None, Some err_not_found)
   \<and> ErrCodeEquals (Some err_not_found) ErrCodeResourceNotFoundException
   \<and> fst (FindRuleGroupByARN (conn_failing err_not_found) ex_arn [])
       = (None, Some (NotFoundError (Some err_not_found)))
   \<and> DescribeRuleGroupReply (conn_failing err_throttled) [] \<lparr>dri_RuleGroupArn = Some ex_arn\<rparr>
     = (None, Some err_throttled)
   \<and> \<not> ErrCodeEquals (Some err_throttled) ErrCodeResourceNotFoundException
   \<and> fst (FindRuleGroupByARN (conn_failing err_throttled) ex_arn [])
       = (None, Some (SDKError err_throttled))"
  using FindRuleGroupByARN_maps_errors [of "conn_failing err_not_found" "[]" ex_arn None err_not_found]
        FindRuleGroupByARN_maps_errors [of "conn_failing err_throttled" "[]" ex_arn None err_throttled]
  by (simp add: conn_failing_def err_not_found_def err_throttled_def
        ErrCodeResourceNotFoundException_def)

lemma setAttributes_not_Panicked: "fst (setAttributes d out response) \<noteq> Panicked"
  by (simp add: setAttributes_def Let_def split: option.splits prod.splits)

lemma readResult_not_Panicked:
  "outp = None \<longrightarrow> err \<noteq> None \<Longrightarrow>
   \<forall>out. outp = Some out \<longrightarrow> dro_RuleGroupResponse out \<noteq> None \<Longrightarrow>
   fst (readResult d outp err) \<noteq> Panicked"
  by (auto simp: readResult_def setAttributes_not_Panicked split: option.splits)

text \<open>
  C10. Whenever the Finder returns no error, it returns an output, and that output's
  \<open>RuleGroupResponse\<close> is present: a describe reply without error that carries no
  output, or an output without \<open>RuleGroupResponse\<close>, comes back as the empty-result
  error, and only a reply with both comes back as that reply. Hence the Finder's two
  callers never dereference nil: \<open>resourceRuleGroupRead\<close> does not panic and
  \<open>statusRuleGroup\<close> does not either.
\<close>

theorem FindRuleGroupByARN_success_not_nil:
  "(snd (fst (FindRuleGroupByARN conn arn log)) = None \<longrightarrow>
      (\<exists>out response. fst (fst (FindRuleGroupByARN conn arn log)) = Some out \<and>
                      dro_RuleGroupResponse out = Some response))
   \<and> (DescribeRuleGroupReply conn log \<lparr>dri_RuleGroupArn = Some arn\<rparr> = (None, None) \<longrightarrow>
        fst (FindRuleGroupByARN conn arn log) = (None, Some EmptyResultError))
   \<and> (\<forall>out. DescribeRuleGroupReply conn log \<lparr>dri_RuleGroupArn = Some arn\<rparr> = (Some out, None) \<and>
             dro_RuleGroupResponse out = None \<longrightarrow>
             fst (FindRuleGroupByARN conn arn log) = (None, Some EmptyResultError))
   \<and> (\<forall>out. DescribeRuleGroupReply conn log \<lparr>dri_RuleGroupArn = Some arn\<rparr> = (Some out, None) \<and>
             dro_RuleGroupResponse out \<noteq> None \<longrightarrow>
             fst (FindRuleGroupByARN conn arn log) = (Some out, None))
   \<and> fst (resourceRuleGroupRead ctx d meta log) \<noteq> Panicked
   \<and> snd (snd (fst (statusRuleGroup conn arn log))) \<noteq> Some NilPointerDereference"
proof (intro conjI)
  show "snd (fst (FindRuleGroupByARN conn arn log)) = None \<longrightarrow>
      (\<exists>out response. fst (fst (FindRuleGroupByARN conn arn log)) = Some out \<and>
                      dro_RuleGroupResponse out = Some response)"
    using Find_cases [of conn arn log] by auto
next
  show "DescribeRuleGroupReply conn log \<lparr>dri_RuleGroupArn = Some arn\<rparr> = (None, None) \<longrightarrow>
        fst (FindRuleGroupByARN conn arn log) = (None, Some EmptyResultError)"
    by (simp add: FindRuleGroupByARN_def DescribeRuleGroupWithContext_def Let_def)
next
  show "\<forall>out. DescribeRuleGroupReply conn log \<lparr>dri_RuleGroupArn = Some arn\<rparr> = (Some out, None) \<and>
             dro_RuleGroupResponse out = None \<longrightarrow>
             fst (FindRuleGroupByARN conn arn log) = (None, Some EmptyResultError)"
    by (simp add: FindRuleGroupByARN_def DescribeRuleGroupWithContext_def Let_def)
next
  show "\<forall>out. DescribeRuleGroupReply conn log \<lparr>dri_RuleGroupArn = Some arn\<rparr> = (Some out, None) \<and>
             dro_RuleGroupResponse out \<noteq> None \<longrightarrow>
             fst (FindRuleGroupByARN conn arn log) = (Some out, None)"
    by (auto simp: FindRuleGroupByARN_def DescribeRuleGroupWithContext_def Let_def)
next
  obtain outp err log' where
    F: "FindRuleGroupByARN (NetworkFirewallConn meta) (d_Id d) log = ((outp, err), log')"
    by (metis prod.collapse)
  from Find_cases [of "NetworkFirewallConn meta" "d_Id d" log] F
  consider e where "outp = None" "err = Some e"
    | out response where "outp = Some out" "err = None"
        "dro_RuleGroupResponse out = Some response"
    by auto
  then show "fst (resourceRuleGroupRead ctx d meta log) \<noteq> Panicked"
  proof cases
    case 1
    then show ?thesis using F readResult_not_Panicked [of None "Some e" d]
      by (simp add: resourceRuleGroupRead_def Let_def case_prod_beta)
  next
    case 2
    then show ?thesis using F
        readResult_not_Panicked [of "Some out" None d]
        readResult_not_Panicked [of "Some out" "Some EmptyResultError" d]
      by (simp add: resourceRuleGroupRead_def Let_def case_prod_beta)
  qed
next
  show "snd (snd (fst (statusRuleGroup conn arn log))) \<noteq> Some NilPointerDereference"
    using Find_cases [of conn arn log]
    by (auto simp: statusRuleGroup_def Let_def FindRuleGroupByARN_def
          DescribeRuleGroupWithContext_def split: option.splits prod.splits if_splits)
qed

theorem FindRuleGroupByARN_success_not_nil_witness:
  "snd (fst (FindRuleGroupByARN (conn_status ''ACTIVE'') ex_arn [])) = None
   \<and> fst (fst (FindRuleGroupByARN (conn_status ''ACTIVE'') ex_arn [])) = Some (ex_described ''ACTIVE'')
   \<and> dro_RuleGroupResponse (ex_described ''ACTIVE'') = Some (ex_response ''ACTIVE'')
   \<and> DescribeRuleGroupReply (conn_describing (None, None)) [] \<lparr>dri_RuleGroupArn = Some ex_arn\<rparr>
       = (None, None)
   \<and> fst (FindRuleGroupByARN (conn_describing (None, None)) ex_arn [])
       = (None, Some EmptyResultError)
   \<and> DescribeRuleGroupReply (conn_describing (Some ex_empty_output, None)) []
         \<lparr>dri_RuleGroupArn = Some ex_arn\<rparr>
       = (Some ex_empty_output, None)
   \<and> dro_RuleGroupResponse ex_empty_output = None
   \<and> fst (FindRuleGroupByARN (conn_describing (Some ex_empty_output, None)) ex_arn [])
       = (None, Some EmptyResultError)"
  using FindRuleGroupByARN_success_not_nil [of "conn_status ''ACTIVE''" ex_arn "[]"]
        FindRuleGroupByARN_success_not_nil [of "conn_describing (None, None)" ex_arn "[]"]
        FindRuleGroupByARN_success_not_nil [of "conn_describing (Some ex_empty_output, None)" ex_arn "[]"]
  by (simp add: op_defs ex_defs)

section \<open>Properties of create, read and update\<close>

lemma Read_log:
  "snd (snd (resourceRuleGroupRead ctx d meta log))
     = log @ [CallDescribe \<lparr>dri_RuleGroupArn = Some (d_Id d)\<rparr>]"
  using Find_log [of "NetworkFirewallConn meta" "d_Id d" log]
  by (auto simp: resourceRuleGroupRead_def Let_def case_prod_beta split: option.splits)

lemma Read_NotFound:
  assumes "NotFound (snd (fst (FindRuleGroupByARN (NetworkFirewallConn meta) (d_Id d) log)))"
  shows "fst (resourceRuleGroupRead ctx d meta log)
           = (if d_IsNewResource d
              then Returned [Errorf ''reading NetworkFirewall Rule Group'' (d_Id d)
                     (the (snd (fst (FindRuleGroupByARN (NetworkFirewallConn meta) (d_Id d) log))))]
              else Returned [])
       \<and> fst (snd (resourceRuleGroupRead ctx d meta log))
           = (if d_IsNewResource d then d else d\<lparr>d_Id := []\<rparr>)"
proof -
  obtain outp err log' where
    F: "FindRuleGroupByARN (NetworkFirewallConn meta) (d_Id d) log = ((outp, err), log')"
    by (metis prod.collapse)
  with assms have nf: "NotFound err" by simp
  then obtain e where e: "err = Some e" by (cases err) auto
  show ?thesis using F nf e
    by (simp add: resourceRuleGroupRead_def readResult_def Let_def)
qed

text \<open>
  C1 (as amended). For every configuration the create operation issues exactly one
  Create call, followed by at most one describe call and nothing else. When the Create
  call succeeds, the operation sets the identifier from the reply and is the read
  operation run once on it: one describe call through the Finder, whose result is
  reported. No status is waited for.
\<close>

theorem resourceRuleGroupCreate_one_call_then_read:
  "(\<exists>rest. snd (snd (resourceRuleGroupCreate ctx d meta log))
             = log @ CallCreate (createInput d) # rest
      \<and> (rest = [] \<or> (\<exists>arn. rest = [CallDescribe \<lparr>dri_RuleGroupArn = Some arn\<rparr>])))
   \<and> (\<forall>out response.
        CreateRuleGroupReply (NetworkFirewallConn meta) log (createInput d) = (Some out, None) \<and>
        cro_RuleGroupResponse out = Some response \<longrightarrow>
        resourceRuleGroupCreate ctx d meta log =
          resourceRuleGroupRead ctx (d\<lparr>d_Id := StringValue (RuleGroupArn response)\<rparr>) meta
            (log @ [CallCreate (createInput d)]) \<and>
        snd (snd (resourceRuleGroupCreate ctx d meta log)) =
          log @ [CallCreate (createInput d),
                 CallDescribe \<lparr>dri_RuleGroupArn = Some (StringValue (RuleGroupArn response))\<rparr>])"
  by (auto simp: resourceRuleGroupCreate_def CreateRuleGroupWithContext_def Let_def Read_log
           split: option.splits prod.splits)

theorem resourceRuleGroupCreate_one_call_then_read_witness:
  "CreateRuleGroupReply (NetworkFirewallConn (ex_meta (conn_status ''ACTIVE''))) []
       (createInput (ex_d\<lparr>d_Id := [], d_IsNewResource := True\<rparr>))
     = (Some \<lparr>cro_RuleGroupResponse = Some (ex_response ''ACTIVE'')\<rparr>, None)
   \<and> snd (snd (resourceRuleGroupCreate ex_ctx (ex_d\<lparr>d_Id := [], d_IsNewResource := True\<rparr>)
                  (ex_meta (conn_status ''ACTIVE'')) []))
     = [CallCreate (createInput (ex_d\<lparr>d_Id := [], d_IsNewResource := True\<rparr>)),
        CallDescribe \<lparr>dri_RuleGroupArn = Some ex_arn\<rparr>]"
  using resourceRuleGroupCreate_one_call_then_read
          [of ex_ctx "ex_d\<lparr>d_Id := [], d_IsNewResource := True\<rparr>" "ex_meta (conn_status ''ACTIVE'')" "[]"]
  by (simp add: op_defs ex_defs)

text \<open>
  C1 fails as stated: on a remote whose every describe reports the status \<open>DELETING\<close>
  (the status the resource's own waiter lists as pending), create reports success after
  its Create call and a single describe call.
\<close>

theorem resourceRuleGroupCreate_no_poll_counterexample:
  "fst (resourceRuleGroupCreate ex_ctx (ex_d\<lparr>d_Id := [], d_IsNewResource := True\<rparr>)
          (ex_meta (conn_status ResourceStatusDeleting)) []) = Returned []
   \<and> snd (snd (resourceRuleGroupCreate ex_ctx (ex_d\<lparr>d_Id := [], d_IsNewResource := True\<rparr>)
          (ex_meta (conn_status ResourceStatusDeleting)) []))
       = [CallCreate (createInput ex_d), CallDescribe \<lparr>dri_RuleGroupArn = Some ex_arn\<rparr>]
   \<and> fst (statusRuleGroup (conn_status ResourceStatusDeleting) ex_arn
             [CallCreate (createInput ex_d), CallDescribe \<lparr>dri_RuleGroupArn = Some ex_arn\<rparr>])
       = (Some (Some (RuleGroup ''rules_source'')), ResourceStatusDeleting, None)
   \<and> ResourceStatusDeleting
       \<in> set (Pending (ruleGroupDeletedConf (conn_status ResourceStatusDeleting) ex_arn
                         (10 * Minute)))"
  by (simp add: op_defs ex_defs)

text \<open>
  C6 (as amended). When an attribute has changed and the modify call succeeds, the
  update operation is that one call followed by the read operation run once, the same
  single read that create ends with: one describe call, whose result is reported. When
  nothing has changed it is the read alone. No status is waited for.
\<close>

theorem resourceRuleGroupUpdate_then_single_read:
  "(HasChanges d [''description'', ''encryption_configuration'', ''rule_group'', ''rules'',
                  ''type''] \<and>
      UpdateRuleGroupReply (NetworkFirewallConn meta) log (updateInput d) = None \<longrightarrow>
      resourceRuleGroupUpdate ctx d meta log =
        resourceRuleGroupRead ctx d meta (log @ [CallUpdate (updateInput d)]) \<and>
      snd (snd (resourceRuleGroupUpdate ctx d meta log)) =
        log @ [CallUpdate (updateInput d), CallDescribe \<lparr>dri_RuleGroupArn = Some (d_Id d)\<rparr>])
   \<and> (\<not> HasChanges d [''description'', ''encryption_configuration'', ''rule_group'', ''rules'',
                      ''type''] \<longrightarrow>
      resourceRuleGroupUpdate ctx d meta log = resourceRuleGroupRead ctx d meta log \<and>
      snd (snd (resourceRuleGroupUpdate ctx d meta log)) =
        log @ [CallDescribe \<lparr>dri_RuleGroupArn = Some (d_Id d)\<rparr>])"
  by (auto simp: resourceRuleGroupUpdate_def UpdateRuleGroupWithContext_def Let_def Read_log
           split: option.splits prod.splits)

theorem resourceRuleGroupUpdate_then_single_read_witness:
  "HasChanges (ex_d\<lparr>d_changed := [''description'']\<rparr>)
      [''description'', ''encryption_configuration'', ''rule_group'', ''rules'', ''type'']
   \<and> UpdateRuleGroupReply (NetworkFirewallConn (ex_meta (conn_status ''ACTIVE''))) []
        (updateInput (ex_d\<lparr>d_changed := [''description'']\<rparr>)) = None
   \<and> snd (snd (resourceRuleGroupUpdate ex_ctx (ex_d\<lparr>d_changed := [''description'']\<rparr>)
          (ex_meta (conn_status ''ACTIVE'')) []))
       = [CallUpdate (updateInput (ex_d\<lparr>d_changed := [''description'']\<rparr>)),
          CallDescribe \<lparr>dri_RuleGroupArn = Some ex_arn\<rparr>]
   \<and> \<not> HasChanges ex_d
         [''description'', ''encryption_configuration'', ''rule_group'', ''rules'', ''type'']
   \<and> snd (snd (resourceRuleGroupUpdate ex_ctx ex_d (ex_meta (conn_status ''ACTIVE'')) []))
       = [CallDescribe \<lparr>dri_RuleGroupArn = Some ex_arn\<rparr>]"
  using resourceRuleGroupUpdate_then_single_read
          [of "ex_d\<lparr>d_changed := [''description'']\<rparr>" "ex_meta (conn_status ''ACTIVE'')" "[]" ex_ctx]
        resourceRuleGroupUpdate_then_single_read
          [of ex_d "ex_meta (conn_status ''ACTIVE'')" "[]" ex_ctx]
  by (simp add: op_defs ex_defs)

text \<open>
  C6 fails as stated: with a changed description and a remote whose every describe
  reports \<open>DELETING\<close>, update reports success after the modify call and a single
  describe call.
\<close>

theorem resourceRuleGroupUpdate_no_poll_counterexample:
  "fst (resourceRuleGroupUpdate ex_ctx (ex_d\<lparr>d_changed := [''description'']\<rparr>)
          (ex_meta (conn_status ResourceStatusDeleting)) []) = Returned []
   \<and> snd (snd (resourceRuleGroupUpdate ex_ctx (ex_d\<lparr>d_changed := [''description'']\<rparr>)
          (ex_meta (conn_status ResourceStatusDeleting)) []))
       = [CallUpdate (updateInput (ex_d\<lparr>d_changed := [''description'']\<rparr>)),
          CallDescribe \<lparr>dri_RuleGroupArn = Some ex_arn\<rparr>]
   \<and> fst (statusRuleGroup (conn_status ResourceStatusDeleting) ex_arn
             [CallUpdate (updateInput (ex_d\<lparr>d_changed := [''description'']\<rparr>)),
              CallDescribe \<lparr>dri_RuleGroupArn = Some ex_arn\<rparr>])
       = (Some (Some (RuleGroup ''rules_source'')), ResourceStatusDeleting, None)"
  by (simp add: op_defs ex_defs)

text \<open>
  C7. When the Finder reports not found, the read of a resource that is not newly
  created returns no diagnostic and clears the identifier, removing the resource from
  the state; the read of a newly created resource returns the not-found error as a
  diagnostic and leaves the data as it was. The read that create runs right after its
  Create call is of the second kind: with the new-resource mark set, create returns that
  diagnostic.
\<close>

theorem resourceRuleGroupRead_not_found:
  "(NotFound (snd (fst (FindRuleGroupByARN (NetworkFirewallConn meta) (d_Id d) log))) \<and>
      \<not> d_IsNewResource d \<longrightarrow>
      fst (resourceRuleGroupRead ctx d meta log) = Returned [] \<and>
      fst (snd (resourceRuleGroupRead ctx d meta log)) = d\<lparr>d_Id := []\<rparr>)
   \<and> (NotFound (snd (fst (FindRuleGroupByARN (NetworkFirewallConn meta) (d_Id d) log))) \<and>
      d_IsNewResource d \<longrightarrow>
      (\<exists>e. fst (resourceRuleGroupRead ctx d meta log)
             = Returned [Errorf ''reading NetworkFirewall Rule Group'' (d_Id d) e] \<and>
           NotFound (Some e)) \<and>
      fst (snd (resourceRuleGroupRead ctx d meta log)) = d)
   \<and> (\<forall>out response.
        d_IsNewResource d \<and>
        CreateRuleGroupReply (NetworkFirewallConn meta) log (createInput d) = (Some out, None) \<and>
        cro_RuleGroupResponse out = Some response \<and>
        NotFound (snd (fst (FindRuleGroupByARN (NetworkFirewallConn meta)
                              (StringValue (RuleGroupArn response))
                              (log @ [CallCreate (createInput d)])))) \<longrightarrow>
        (\<exists>e. fst (resourceRuleGroupCreate ctx d meta log)
               = Returned [Errorf ''reading NetworkFirewall Rule Group''
                             (StringValue (RuleGroupArn response)) e] \<and>
             NotFound (Some e)))"
proof (intro conjI allI impI)
  assume a: "NotFound (snd (fst (FindRuleGroupByARN (NetworkFirewallConn meta) (d_Id d) log))) \<and>
             \<not> d_IsNewResource d"
  from Read_NotFound [of meta d log ctx] a
  show "fst (resourceRuleGroupRead ctx d meta log) = Returned []"
    and "fst (snd (resourceRuleGroupRead ctx d meta log)) = d\<lparr>d_Id := []\<rparr>"
    by simp_all
next
  assume a: "NotFound (snd (fst (FindRuleGroupByARN (NetworkFirewallConn meta) (d_Id d) log))) \<and>
             d_IsNewResource d"
  then obtain e where
    e: "snd (fst (FindRuleGroupByARN (NetworkFirewallConn meta) (d_Id d) log)) = Some e"
    by (cases "snd (fst (FindRuleGroupByARN (NetworkFirewallConn meta) (d_Id d) log))") auto
  from Read_NotFound [of meta d log ctx] a e
  show "\<exists>e. fst (resourceRuleGroupRead ctx d meta log)
             = Returned [Errorf ''reading NetworkFirewall Rule Group'' (d_Id d) e] \<and>
           NotFound (Some e)"
    and "fst (snd (resourceRuleGroupRead ctx d meta log)) = d"
    by auto
next
  fix out :: CreateRuleGroupOutput and response :: RuleGroupResponse
  let ?d = "d\<lparr>d_Id := StringValue (RuleGroupArn response)\<rparr>"
  let ?log = "log @ [CallCreate (createInput d)]"
  assume a: "d_IsNewResource d \<and>
        CreateRuleGroupReply (NetworkFirewallConn meta) log (createInput d) = (Some out, None) \<and>
        cro_RuleGroupResponse out = Some response \<and>
        NotFound (snd (fst (FindRuleGroupByARN (NetworkFirewallConn meta)
                              (StringValue (RuleGroupArn response))
                              (log @ [CallCreate (createInput d)]))))"
  then have c: "resourceRuleGroupCreate ctx d meta log = resourceRuleGroupRead ctx ?d meta ?log"
    by (simp add: resourceRuleGroupCreate_def CreateRuleGroupWithContext_def Let_def)
  from a obtain e where
    e: "snd (fst (FindRuleGroupByARN (NetworkFirewallConn meta) (d_Id ?d) ?log)) = Some e"
    by (cases "snd (fst (FindRuleGroupByARN (NetworkFirewallConn meta) (d_Id ?d) ?log))") auto
  from Read_NotFound [of meta ?d ?log ctx] a e c
  show "\<exists>e. fst (resourceRuleGroupCreate ctx d meta log)
               = Returned [Errorf ''reading NetworkFirewall Rule Group''
                             (StringValue (RuleGroupArn response)) e] \<and>
             NotFound (Some e)"
    by auto
qed

theorem resourceRuleGroupRead_not_found_witness:
  "NotFound (snd (fst (FindRuleGroupByARN (NetworkFirewallConn (ex_meta (conn_failing err_not_found)))
                        (d_Id ex_d) [])))
   \<and> \<not> d_IsNewResource ex_d
   \<and> fst (resourceRuleGroupRead ex_ctx ex_d (ex_meta (conn_failing err_not_found)) []) = Returned []
   \<and> d_Id (fst (snd (resourceRuleGroupRead ex_ctx ex_d (ex_meta (conn_failing err_not_found)) [])))
       = []
   \<and> d_IsNewResource (ex_d\<lparr>d_IsNewResource := True\<rparr>)
   \<and> fst (resourceRuleGroupRead ex_ctx (ex_d\<lparr>d_IsNewResource := True\<rparr>)
            (ex_meta (conn_failing err_not_found)) [])
       = Returned [Errorf ''reading NetworkFirewall Rule Group'' ex_arn
                     (NotFoundError (Some err_not_found))]
   \<and> CreateRuleGroupReply
         (NetworkFirewallConn (ex_meta ((conn_failing err_not_found)
            \<lparr>CreateRuleGroupReply :=
               (\<lambda>log input. (Some \<lparr>cro_RuleGroupResponse = Some (ex_response ''ACTIVE'')\<rparr>, None))\<rparr>)))
         [] (createInput (ex_d\<lparr>d_IsNewResource := True\<rparr>))
       = (Some \<lparr>cro_RuleGroupResponse = Some (ex_response ''ACTIVE'')\<rparr>, None)
   \<and> fst (resourceRuleGroupCreate ex_ctx (ex_d\<lparr>d_IsNewResource := True\<rparr>)
            (ex_meta ((conn_failing err_not_found)
               \<lparr>CreateRuleGroupReply :=
                  (\<lambda>log input. (Some \<lparr>cro_RuleGroupResponse = Some (ex_response ''ACTIVE'')\<rparr>, None))\<rparr>))
            [])
       = Returned [Errorf ''reading NetworkFirewall Rule Group'' ex_arn
                     (NotFoundError (Some err_not_found))]"
  using resourceRuleGroupRead_not_found
          [of "ex_meta (conn_failing err_not_found)" ex_d "[]" ex_ctx]
        resourceRuleGroupRead_not_found
          [of "ex_meta (conn_failing err_not_found)" "ex_d\<lparr>d_IsNewResource := True\<rparr>" "[]" ex_ctx]
        resourceRuleGroupRead_not_found
          [of "ex_meta ((conn_failing err_not_found)
                 \<lparr>CreateRuleGroupReply :=
                    (\<lambda>log input. (Some \<lparr>cro_RuleGroupResponse = Some (ex_response ''ACTIVE'')\<rparr>, None))\<rparr>)"
              "ex_d\<lparr>d_IsNewResource := True\<rparr>" "[]" ex_ctx]
  by (simp add: op_defs ex_defs)

text \<open>
  C9 (as amended). The request of the update operation never carries both \<open>Rules\<close> and
  \<open>RuleGroup\<close>. When \<open>rules\<close> has changed, \<open>Rules\<close> is sent. When \<open>rules\<close> has not
  changed and \<open>rule_group\<close> has changed and is configured, \<open>RuleGroup\<close> is sent, also
  when \<open>rules\<close> is present. When neither of the two cases applies, \<open>rules\<close>, if
  present, is sent in preference to \<open>rule_group\<close>; with no \<open>rules\<close> the configured
  rule group is sent.
\<close>

theorem updateInput_rules_or_rule_group:
  "\<not> (uri_Rules (updateInput d) \<noteq> None \<and> uri_RuleGroup (updateInput d) \<noteq> None)
   \<and> (HasChange d ''rules'' \<longrightarrow>
        uri_Rules (updateInput d) = Some (d_rules d) \<and> uri_RuleGroup (updateInput d) = None)
   \<and> (\<not> HasChange d ''rules'' \<and> HasChange d ''rule_group'' \<and> configuredRuleGroup d \<noteq> None \<longrightarrow>
        uri_RuleGroup (updateInput d) = configuredRuleGroup d \<and> uri_Rules (updateInput d) = None)
   \<and> (\<not> HasChange d ''rules'' \<and> \<not> (HasChange d ''rule_group'' \<and> configuredRuleGroup d \<noteq> None)
        \<and> d_rules d \<noteq> [] \<longrightarrow>
        uri_Rules (updateInput d) = Some (d_rules d) \<and> uri_RuleGroup (updateInput d) = None)
   \<and> (\<not> HasChange d ''rules'' \<and> d_rules d = [] \<longrightarrow>
        uri_RuleGroup (updateInput d) = configuredRuleGroup d \<and> uri_Rules (updateInput d) = None)"
  by (auto simp: updateInput_def Let_def GetOk_string_def split: option.splits)

theorem updateInput_rules_or_rule_group_witness:
  "HasChange (ex_d\<lparr>d_changed := [''rules'']\<rparr>) ''rules''
   \<and> uri_Rules (updateInput (ex_d\<lparr>d_changed := [''rules'']\<rparr>)) = Some (d_rules ex_d)
   \<and> uri_RuleGroup (updateInput (ex_d\<lparr>d_changed := [''rules'']\<rparr>)) = None
   \<and> \<not> HasChange ex_d_both ''rules'' \<and> HasChange ex_d_both ''rule_group''
   \<and> configuredRuleGroup ex_d_both = Some (RuleGroup ''rules_source'')
   \<and> uri_RuleGroup (updateInput ex_d_both) = Some (RuleGroup ''rules_source'')
   \<and> \<not> HasChange ex_d ''rules'' \<and> \<not> HasChange ex_d ''rule_group'' \<and> d_rules ex_d \<noteq> []
   \<and> uri_Rules (updateInput ex_d) = Some (d_rules ex_d)
   \<and> d_rules (ex_d\<lparr>d_rules := [], d_rule_group := [Some ''rules_source'']\<rparr>) = []
   \<and> uri_RuleGroup (updateInput (ex_d\<lparr>d_rules := [], d_rule_group := [Some ''rules_source'']\<rparr>))
       = Some (RuleGroup ''rules_source'')"
  using updateInput_rules_or_rule_group [of "ex_d\<lparr>d_changed := [''rules'']\<rparr>"]
        updateInput_rules_or_rule_group [of ex_d_both]
        updateInput_rules_or_rule_group [of ex_d]
        updateInput_rules_or_rule_group
          [of "ex_d\<lparr>d_rules := [], d_rule_group := [Some ''rules_source'']\<rparr>"]
  by (simp add: op_defs ex_defs)

text \<open>
  C9 fails as stated: with \<open>rules\<close> present and unchanged and \<open>rule_group\<close> configured
  and changed, the modify call carries \<open>RuleGroup\<close> and no \<open>Rules\<close>.
\<close>

theorem updateInput_rules_precedence_counterexample:
  "d_rules ex_d_both \<noteq> []
   \<and> uri_Rules (updateInput ex_d_both) = None
   \<and> uri_RuleGroup (updateInput ex_d_both) = Some (RuleGroup ''rules_source'')
   \<and> snd (snd (resourceRuleGroupUpdate ex_ctx ex_d_both (ex_meta (conn_status ''ACTIVE'')) []))
       = [CallUpdate (updateInput ex_d_both), CallDescribe \<lparr>dri_RuleGroupArn = Some ex_arn\<rparr>]"
  by (simp add: op_defs ex_defs)

section \<open>Properties of delete and of the wait\<close>

lemma retryLoop_no_match:
  "\<not> ErrMessageContains (fst (f log)) code message \<Longrightarrow> retryLoop n f code message log = f log"
  by (cases n) (simp_all add: case_prod_beta)

lemma statusRuleGroup_NotFound:
  "NotFound (snd (fst (FindRuleGroupByARN conn arn log))) \<Longrightarrow>
   statusRuleGroup conn arn log
     = ((None, [], None), log @ [CallDescribe \<lparr>dri_RuleGroupArn = Some arn\<rparr>])"
  using Find_log [of conn arn log]
  by (auto simp: statusRuleGroup_def Let_def case_prod_beta)

lemma statusRuleGroup_found:
  "fst (FindRuleGroupByARN conn arn log) = (Some out, None) \<Longrightarrow>
   dro_RuleGroupResponse out = Some response \<Longrightarrow>
   statusRuleGroup conn arn log
     = ((Some (dro_RuleGroup out), StringValue (RuleGroupStatus response), None),
        log @ [CallDescribe \<lparr>dri_RuleGroupArn = Some arn\<rparr>])"
  using Find_log [of conn arn log]
  by (auto simp: statusRuleGroup_def Let_def case_prod_beta)

lemma statusRuleGroup_error:
  "fst (FindRuleGroupByARN conn arn log) = (None, Some e) \<Longrightarrow> \<not> NotFound (Some e) \<Longrightarrow>
   statusRuleGroup conn arn log
     = ((None, [], Some e), log @ [CallDescribe \<lparr>dri_RuleGroupArn = Some arn\<rparr>])"
  using Find_log [of conn arn log]
  by (auto simp: statusRuleGroup_def Let_def case_prod_beta)

lemma waitRuleGroupDeleted_first_NotFound:
  assumes "NotFound (snd (fst (FindRuleGroupByARN conn arn log)))"
      and "0 < timeout" and "\<not> Done ctx 0"
  shows "waitRuleGroupDeleted ctx conn arn timeout log
           = Some ((None, None), log @ [CallDescribe \<lparr>dri_RuleGroupArn = Some arn\<rparr>])"
proof -
  have "pollLoop ctx (ruleGroupDeletedConf conn arn timeout) 0 0 0 log
           = Some (Converged None, 0, log @ [CallDescribe \<lparr>dri_RuleGroupArn = Some arn\<rparr>])"
    using assms
    by (subst pollLoop.simps) (simp add: ruleGroupDeletedConf_def statusRuleGroup_NotFound)
  then show ?thesis
    by (simp add: waitRuleGroupDeleted_def WaitForStateContext_def Let_def)
qed



text \<open>
  C2 (as amended). For every identifier for which the Finder reports not found, the
  delete operation returns success when the delete call, the last one made after the
  retries of a still-in-use answer, answers with \<open>ResourceNotFoundException\<close> (no
  wait follows) or with no error (the wait then converges at its first tick, the context
  not being cancelled). When that call answers with any other error, the delete operation
  returns that error as a diagnostic.
\<close>

theorem resourceRuleGroupDelete_absent:
  assumes "\<forall>l. NotFound (snd (fst (FindRuleGroupByARN (NetworkFirewallConn meta) (d_Id d) l)))"
      and "\<not> Done ctx 0"
      and "RetryWhenAWSErrMessageContains attempts ctx (10 * Minute)
             (DeleteRuleGroupWithContext (NetworkFirewallConn meta)
                \<lparr>dli_RuleGroupArn = Some (d_Id d)\<rparr>)
             ErrCodeInvalidOperationException
             ''Unable to delete the object because it is still in use'' log = (err, log1)"
  shows "(ErrCodeEquals err ErrCodeResourceNotFoundException \<longrightarrow>
            resourceRuleGroupDelete attempts ctx d meta log = Some (Returned [], d, log1))
       \<and> (err = None \<longrightarrow>
            resourceRuleGroupDelete attempts ctx d meta log
              = Some (Returned [], d, log1 @ [CallDescribe \<lparr>dri_RuleGroupArn = Some (d_Id d)\<rparr>]))
       \<and> (\<forall>e. err = Some e \<and> \<not> ErrCodeEquals err ErrCodeResourceNotFoundException \<longrightarrow>
            resourceRuleGroupDelete attempts ctx d meta log
              = Some (Returned [Errorf ''deleting NetworkFirewall Rule Group'' (d_Id d)
                                  (SDKError e)], d, log1))"
proof (intro conjI allI impI)
  assume "ErrCodeEquals err ErrCodeResourceNotFoundException"
  then show "resourceRuleGroupDelete attempts ctx d meta log = Some (Returned [], d, log1)"
    using assms(3) by (simp add: resourceRuleGroupDelete_def Let_def)
next
  assume e: "err = None"
  have "(0::nat) < 10 * Minute" by (simp add: Minute_def)
  from waitRuleGroupDeleted_first_NotFound [OF assms(1) [rule_format] this assms(2)]
  have "waitRuleGroupDeleted ctx (NetworkFirewallConn meta) (d_Id d) (10 * Minute) log1
          = Some ((None, None), log1 @ [CallDescribe \<lparr>dri_RuleGroupArn = Some (d_Id d)\<rparr>])" .
  then show "resourceRuleGroupDelete attempts ctx d meta log
              = Some (Returned [], d, log1 @ [CallDescribe \<lparr>dri_RuleGroupArn = Some (d_Id d)\<rparr>])"
    using assms(3) e by (simp add: resourceRuleGroupDelete_def Let_def)
next
  fix e
  assume "err = Some e \<and> \<not> ErrCodeEquals err ErrCodeResourceNotFoundException"
  then have "err = Some e" and "\<not> ErrCodeEquals (Some e) ErrCodeResourceNotFoundException"
    by auto
  then show "resourceRuleGroupDelete attempts ctx d meta log
              = Some (Returned [Errorf ''deleting NetworkFirewall Rule Group'' (d_Id d)
                                  (SDKError e)], d, log1)"
    using assms(3) by (simp add: resourceRuleGroupDelete_def Let_def)
qed

theorem resourceRuleGroupDelete_absent_witness:
  "NotFound (snd (fst (FindRuleGroupByARN (conn_failing err_not_found) ex_arn [])))
   \<and> \<not> Done ex_ctx 0
   \<and> resourceRuleGroupDelete 2 ex_ctx ex_d (ex_meta (conn_failing err_not_found)) []
       = Some (Returned [], ex_d, [CallDelete \<lparr>dli_RuleGroupArn = Some ex_arn\<rparr>])
   \<and> resourceRuleGroupDelete 2 ex_ctx ex_d (ex_meta conn_in_use_then_gone) []
       = Some (Returned [], ex_d,
               [CallDelete \<lparr>dli_RuleGroupArn = Some ex_arn\<rparr>,
                CallDelete \<lparr>dli_RuleGroupArn = Some ex_arn\<rparr>])
   \<and> resourceRuleGroupDelete 2 ex_ctx ex_d
         (ex_meta (conn_describing (None, Some err_not_found))) []
       = Some (Returned [], ex_d,
               [CallDelete \<lparr>dli_RuleGroupArn = Some ex_arn\<rparr>,
                CallDescribe \<lparr>dri_RuleGroupArn = Some ex_arn\<rparr>])
   \<and> resourceRuleGroupDelete 2 ex_ctx ex_d (ex_meta conn_gone_throttled) []
       = Some (Returned [Errorf ''deleting NetworkFirewall Rule Group'' ex_arn
                           (SDKError err_throttled)],
               ex_d, [CallDelete \<lparr>dli_RuleGroupArn = Some ex_arn\<rparr>])"
  using resourceRuleGroupDelete_absent
          [of "ex_meta (conn_failing err_not_found)" ex_d ex_ctx 2 "[]" "Some err_not_found"
              "[CallDelete \<lparr>dli_RuleGroupArn = Some ex_arn\<rparr>]"]
        resourceRuleGroupDelete_absent
          [of "ex_meta conn_in_use_then_gone" ex_d ex_ctx 2 "[]" "Some err_not_found"
              "[CallDelete \<lparr>dli_RuleGroupArn = Some ex_arn\<rparr>,
                CallDelete \<lparr>dli_RuleGroupArn = Some ex_arn\<rparr>]"]
        resourceRuleGroupDelete_absent
          [of "ex_meta (conn_describing (None, Some err_not_found))" ex_d ex_ctx 2 "[]" None
              "[CallDelete \<lparr>dli_RuleGroupArn = Some ex_arn\<rparr>]"]
        resourceRuleGroupDelete_absent
          [of "ex_meta conn_gone_throttled" ex_d ex_ctx 2 "[]" "Some err_throttled"
              "[CallDelete \<lparr>dli_RuleGroupArn = Some ex_arn\<rparr>]"]
  by (simp add: op_defs ex_defs eval_nat_numeral)

text \<open>
  C2 fails as stated: on a remote where the Finder reports not found at every moment and
  the delete call is throttled, the delete operation returns an error diagnostic.
\<close>

theorem resourceRuleGroupDelete_gone_throttled_counterexample:
  "(\<forall>log. fst (FindRuleGroupByARN conn_gone_throttled (d_Id ex_d) log)
            = (None, Some (NotFoundError (Some err_not_found))))
   \<and> resourceRuleGroupDelete 2 ex_ctx ex_d (ex_meta conn_gone_throttled) []
     = Some (Returned [Errorf ''deleting NetworkFirewall Rule Group'' ex_arn
                         (SDKError err_throttled)],
             ex_d, [CallDelete \<lparr>dli_RuleGroupArn = Some ex_arn\<rparr>])"
  by (simp add: op_defs ex_defs eval_nat_numeral)

text \<open>
  C3. In the wait that follows the delete call, a tick at which the Finder reports not
  found ends the loop with \<open>Converged\<close>: the clock stands where the tick began, so no
  sleep was added, and one describe call was made. At the first tick this makes
  \<open>waitRuleGroupDeleted\<close> return without error. The tick takes place when the timeout has
  not elapsed and the context is not cancelled.
\<close>

theorem waitRuleGroupDeleted_NotFound_converges:
  assumes "NotFound (snd (fst (FindRuleGroupByARN conn arn log)))"
      and "now < timeout" and "\<not> Done ctx now"
  shows "pollLoop ctx (ruleGroupDeletedConf conn arn timeout) now wait notfoundTick log
           = Some (Converged None, now, log @ [CallDescribe \<lparr>dri_RuleGroupArn = Some arn\<rparr>])
       \<and> (now = 0 \<and> wait = 0 \<and> notfoundTick = 0 \<longrightarrow>
            waitRuleGroupDeleted ctx conn arn timeout log
              = Some ((None, None), log @ [CallDescribe \<lparr>dri_RuleGroupArn = Some arn\<rparr>]))"
proof -
  have p: "pollLoop ctx (ruleGroupDeletedConf conn arn timeout) now wait notfoundTick log
           = Some (Converged None, now, log @ [CallDescribe \<lparr>dri_RuleGroupArn = Some arn\<rparr>])"
    using assms
    by (subst pollLoop.simps) (simp add: ruleGroupDeletedConf_def statusRuleGroup_NotFound)
  then show ?thesis
    by (auto simp: waitRuleGroupDeleted_def WaitForStateContext_def Let_def)
qed

theorem waitRuleGroupDeleted_NotFound_converges_witness:
  "NotFound (snd (fst (FindRuleGroupByARN (conn_failing err_not_found) ex_arn [])))
   \<and> (0::nat) < 10 * Minute \<and> \<not> Done ex_ctx 0
   \<and> waitRuleGroupDeleted ex_ctx (conn_failing err_not_found) ex_arn (10 * Minute) []
       = Some ((None, None), [CallDescribe \<lparr>dri_RuleGroupArn = Some ex_arn\<rparr>])"
  using waitRuleGroupDeleted_NotFound_converges
          [of "conn_failing err_not_found" ex_arn "[]" 0 "10 * Minute" ex_ctx 0 0]
  by (simp add: FindRuleGroupByARN_def DescribeRuleGroupWithContext_def conn_failing_def
        err_not_found_def ErrCodeResourceNotFoundException_def ex_ctx_def Minute_def)

text \<open>
  C4 (as amended). The status function returns the status string the remote reports as
  it is, without error, whatever the string. The wait of \<open>waitRuleGroupDeleted\<close> treats
  as transient the one status it lists as pending, \<open>DELETING\<close>: a tick that finds the
  resource in it sleeps and polls again. A tick that finds the resource in any other
  status, an unknown one included, ends the wait at once with an unexpected-state error.
\<close>

theorem waitRuleGroupDeleted_status_classes:
  assumes "fst (FindRuleGroupByARN conn arn log) = (Some out, None)"
      and "dro_RuleGroupResponse out = Some response"
      and "now < timeout" and "\<not> Done ctx now"
  shows "fst (statusRuleGroup conn arn log)
           = (Some (dro_RuleGroup out), StringValue (RuleGroupStatus response), None)
       \<and> (StringValue (RuleGroupStatus response) = ResourceStatusDeleting \<longrightarrow>
            pollLoop ctx (ruleGroupDeletedConf conn arn timeout) now wait notfoundTick log
              = pollLoop ctx (ruleGroupDeletedConf conn arn timeout) (now + nextWait wait)
                  (nextWait wait) 0 (log @ [CallDescribe \<lparr>dri_RuleGroupArn = Some arn\<rparr>]))
       \<and> (StringValue (RuleGroupStatus response) \<noteq> ResourceStatusDeleting \<longrightarrow>
            pollLoop ctx (ruleGroupDeletedConf conn arn timeout) now wait notfoundTick log
              = Some (Failed (Some (dro_RuleGroup out))
                        (UnexpectedStateError (StringValue (RuleGroupStatus response))),
                      now, log @ [CallDescribe \<lparr>dri_RuleGroupArn = Some arn\<rparr>]))"
proof (intro conjI impI)
  show "fst (statusRuleGroup conn arn log)
           = (Some (dro_RuleGroup out), StringValue (RuleGroupStatus response), None)"
    using statusRuleGroup_found [OF assms(1) assms(2)] by simp
next
  assume "StringValue (RuleGroupStatus response) = ResourceStatusDeleting"
  then show "pollLoop ctx (ruleGroupDeletedConf conn arn timeout) now wait notfoundTick log
              = pollLoop ctx (ruleGroupDeletedConf conn arn timeout) (now + nextWait wait)
                  (nextWait wait) 0 (log @ [CallDescribe \<lparr>dri_RuleGroupArn = Some arn\<rparr>])"
    using assms(3,4) statusRuleGroup_found [OF assms(1) assms(2)]
    by (subst pollLoop.simps) (simp add: ruleGroupDeletedConf_def)
next
  assume "StringValue (RuleGroupStatus response) \<noteq> ResourceStatusDeleting"
  then show "pollLoop ctx (ruleGroupDeletedConf conn arn timeout) now wait notfoundTick log
              = Some (Failed (Some (dro_RuleGroup out))
                        (UnexpectedStateError (StringValue (RuleGroupStatus response))),
                      now, log @ [CallDescribe \<lparr>dri_RuleGroupArn = Some arn\<rparr>])"
    using assms(3,4) statusRuleGroup_found [OF assms(1) assms(2)]
    by (subst pollLoop.simps) (simp add: ruleGroupDeletedConf_def)
qed

theorem waitRuleGroupDeleted_status_classes_witness:
  "fst (FindRuleGroupByARN (conn_status ''ACTIVE'') ex_arn [])
     = (Some (ex_described ''ACTIVE''), None)
   \<and> (0::nat) < 10 * Minute \<and> \<not> Done ex_ctx 0
   \<and> StringValue (RuleGroupStatus (ex_response ''ACTIVE'')) \<noteq> ResourceStatusDeleting
   \<and> pollLoop ex_ctx (ruleGroupDeletedConf (conn_status ''ACTIVE'') ex_arn (10 * Minute)) 0 0 0 []
       = Some (Failed (Some (Some (RuleGroup ''rules_source''))) (UnexpectedStateError ''ACTIVE''),
               0, [CallDescribe \<lparr>dri_RuleGroupArn = Some ex_arn\<rparr>])
   \<and> StringValue (RuleGroupStatus (ex_response ResourceStatusDeleting)) = ResourceStatusDeleting
   \<and> pollLoop ex_ctx (ruleGroupDeletedConf (conn_status ResourceStatusDeleting) ex_arn
         (10 * Minute)) 0 0 0 []
       = pollLoop ex_ctx (ruleGroupDeletedConf (conn_status ResourceStatusDeleting) ex_arn
           (10 * Minute)) (200 * Millisecond) (200 * Millisecond) 0
           [CallDescribe \<lparr>dri_RuleGroupArn = Some ex_arn\<rparr>]"
  using waitRuleGroupDeleted_status_classes
          [of "conn_status ''ACTIVE''" ex_arn "[]" "ex_described ''ACTIVE''"
              "ex_response ''ACTIVE''" 0 "10 * Minute" ex_ctx 0 0]
        waitRuleGroupDeleted_status_classes
          [of "conn_status ResourceStatusDeleting" ex_arn "[]"
              "ex_described ResourceStatusDeleting" "ex_response ResourceStatusDeleting"
              0 "10 * Minute" ex_ctx 0 0]
  by (simp add: FindRuleGroupByARN_def DescribeRuleGroupWithContext_def conn_status_def
        ex_described_def ex_response_def ex_ctx_def ErrCodeResourceNotFoundException_def
        ResourceStatusDeleting_def nextWait_def Millisecond_def Second_def Minute_def)

text \<open>
  C4 fails as stated: the status \<open>ACTIVE\<close> is not listed as a target, and a remote
  that reports it makes the wait fail at its first tick instead of polling on.
\<close>

theorem waitRuleGroupDeleted_unlisted_status_counterexample:
  "fst (statusRuleGroup (conn_status ''ACTIVE'') ex_arn [])
     = (Some (Some (RuleGroup ''rules_source'')), ''ACTIVE'', None)
   \<and> ''ACTIVE'' \<notin> set (Target (ruleGroupDeletedConf (conn_status ''ACTIVE'') ex_arn (10 * Minute)))
   \<and> waitRuleGroupDeleted ex_ctx (conn_status ''ACTIVE'') ex_arn (10 * Minute) []
       = Some ((Some (RuleGroup ''rules_source''), Some (UnexpectedStateError ''ACTIVE'')),
               [CallDescribe \<lparr>dri_RuleGroupArn = Some ex_arn\<rparr>])"
  by (simp add: wait_defs op_defs ex_defs)





end
